theory Spec2Isabelle
  imports Main "HOL-Library.Word"
begin

section \<open>Versioned values and cell cores (wstm/stm.h, namespace Internal)\<close>

text \<open>
  \<^verbatim>\<open>size_t\<close> is taken as a 64-bit unsigned integer; \<open>+\<close> on it wraps around.
  \<^verbatim>\<open>WValue<Type_t>\<close> derives from \<^verbatim>\<open>WValueBase\<close>, which holds the version, and adds the
  payload. A value object that a cell points to is never written again (only pending
  values in a write set are), so a shared pointer to it is modelled by the value itself.
\<close>

type_synonym size_t = "64 word"

record WValueBase =
  m_version :: size_t

record 'a WValue = WValueBase +
  m_value :: 'a

record 'a WVarCore =
  m_value_p :: "'a WValue"

text \<open>\<^verbatim>\<open>return (val.m_version == m_value_p->m_version);\<close>\<close>

definition WVarCore_Validate :: "'a WVarCore \<Rightarrow> 'z WValueBase_scheme \<Rightarrow> bool" where
  "WVarCore_Validate core val = (m_version val = m_version (m_value_p core))"

text \<open>
  \<^verbatim>\<open>old_p = m_value_p; m_value_p = static_pointer_cast<WValue<Type_t>>(val_p); return old_p;\<close>
  The result is the prior value and the core after the call.
\<close>

definition WVarCore_Commit :: "'a WVarCore \<Rightarrow> 'a WValue \<Rightarrow> 'a WValue \<times> 'a WVarCore" where
  "WVarCore_Commit core val_p =
     (let old_p = m_value_p core;
          core' = core\<lparr>m_value_p := val_p\<rparr>
      in (old_p, core'))"

text \<open>
  A \<^verbatim>\<open>WVar\<close> holds a shared pointer to its core; the pointer is the cell's identity and
  the key of the read and write sets. The heap maps core addresses to cores. The
  constructor \<^verbatim>\<open>WVar(val)\<close> makes a core whose value has version 0.
\<close>

record WVar =
  m_core_p :: nat

type_synonym 'a heap = "nat \<Rightarrow> 'a WVarCore"

definition WVarCore_new :: "'a \<Rightarrow> 'a WVarCore" where
  "WVarCore_new val = \<lparr>m_value_p = \<lparr>m_version = 0, m_value = val\<rparr>\<rparr>"

section \<open>The transaction object seen by a WVar\<close>

text \<open>
  The order in which an operation calls \<^verbatim>\<open>ReadLock\<close> and \<^verbatim>\<open>ReadUnlock\<close> on its lockable and
  loads a core's \<^verbatim>\<open>m_value_p\<close> is recorded in a history, which is not a field of the
  source: it is what lets a read of the cell under a read lock be stated.
\<close>

datatype lock_event = ReadLockCall | ReadUnlockCall | LoadValue nat

text \<open>
  Modelled from the spec: \<^verbatim>\<open>WTransactionData\<close> and the bodies of the \<^verbatim>\<open>WAtomic\<close> members
  declared in stm.h (\<^verbatim>\<open>ReadLock\<close>, \<^verbatim>\<open>ReadUnlock\<close>, \<^verbatim>\<open>GetVarValue\<close>, \<^verbatim>\<open>GetVarGotValue\<close>,
  \<^verbatim>\<open>SetVarGetValue\<close>, \<^verbatim>\<open>GetVarSetValue\<close>, \<^verbatim>\<open>SetVarValue\<close>) are in stm.cpp, which is missing.
  The record is the spec's Transaction Record restricted to one nesting level: the read
  set (cell to the snapshot observed), the write set (cell to the pending value) and the
  depth of the held read lock.
\<close>

record 'a WAtomic =
  m_got :: "nat \<rightharpoonup> 'a WValue"
  m_set :: "nat \<rightharpoonup> 'a WValue"
  m_readLocks :: nat
  m_history :: "lock_event list"

text \<open>
  Modelled from the spec: the constructor \<^verbatim>\<open>WAtomic::WAtomic\<close> (stm.cpp, missing); a transaction
  starts with an empty read set, an empty write set and no read lock held.
\<close>

definition WAtomic_new :: "'a WAtomic" where
  "WAtomic_new = \<lparr>m_got = Map.empty, m_set = Map.empty, m_readLocks = 0, m_history = []\<rparr>"

text \<open>
  Modelled from the spec: \<^verbatim>\<open>WAtomic::ReadLock\<close> (stm.cpp, missing), the reference-counted
  acquisition of the transaction's read lock.
\<close>

definition WAtomic_ReadLock :: "'a WAtomic \<Rightarrow> 'a WAtomic" where
  "WAtomic_ReadLock at =
     at\<lparr>m_readLocks := m_readLocks at + 1, m_history := m_history at @ [ReadLockCall]\<rparr>"

text \<open>Modelled from the spec: \<^verbatim>\<open>WAtomic::ReadUnlock\<close> (stm.cpp, missing), the matching release.\<close>

definition WAtomic_ReadUnlock :: "'a WAtomic \<Rightarrow> 'a WAtomic" where
  "WAtomic_ReadUnlock at =
     at\<lparr>m_readLocks := m_readLocks at - 1, m_history := m_history at @ [ReadUnlockCall]\<rparr>"

text \<open>
  Modelled from the spec: \<^verbatim>\<open>WAtomic::GetVarSetValue\<close> (stm.cpp, missing); its declaration
  says: the value that has been set for the WVar, or null if no value has been set.
\<close>

definition GetVarSetValue :: "'a WAtomic \<Rightarrow> nat \<Rightarrow> 'a WValue option" where
  "GetVarSetValue at core_p = m_set at core_p"

text \<open>
  Modelled from the spec: \<^verbatim>\<open>WAtomic::GetVarGotValue\<close> (stm.cpp, missing); its declaration
  says: the value that has been gotten for the given WVar, null if a value has not been
  gotten for the WVar in this transaction.
\<close>

definition GetVarGotValue :: "'a WAtomic \<Rightarrow> nat \<Rightarrow> 'a WValue option" where
  "GetVarGotValue at core_p = m_got at core_p"

text \<open>
  Modelled from the spec: \<^verbatim>\<open>WAtomic::GetVarValue\<close> (stm.cpp, missing); its declaration says:
  null if a value has not been gotten or set for this WVar in this transaction. By the
  spec's \<open>get\<close> the pending value comes before the cached snapshot.
\<close>

definition GetVarValue :: "'a WAtomic \<Rightarrow> nat \<Rightarrow> 'a WValue option" where
  "GetVarValue at core_p =
     (case m_set at core_p of
        Some val_p \<Rightarrow> Some val_p
      | None \<Rightarrow> m_got at core_p)"

text \<open>
  Modelled from the spec: \<^verbatim>\<open>WAtomic::SetVarGetValue\<close> (stm.cpp, missing) records the snapshot
  in the read set.
\<close>

definition SetVarGetValue :: "'a WAtomic \<Rightarrow> nat \<Rightarrow> 'a WValue \<Rightarrow> 'a WAtomic" where
  "SetVarGetValue at core_p value_p = at\<lparr>m_got := (m_got at)(core_p \<mapsto> value_p)\<rparr>"

text \<open>
  Modelled from the spec: \<^verbatim>\<open>WAtomic::SetVarValue\<close> (stm.cpp, missing) inserts the pending value
  in the write set.
\<close>

definition SetVarValue :: "'a WAtomic \<Rightarrow> nat \<Rightarrow> 'a WValue \<Rightarrow> 'a WAtomic" where
  "SetVarValue at core_p value_p = at\<lparr>m_set := (m_set at)(core_p \<mapsto> value_p)\<rparr>"

text \<open>
  The load \<^verbatim>\<open>m_core_p->m_value_p\<close> by a transaction: the value the core points to at that
  moment, and the load noted in the history.
\<close>

definition load_value_p :: "'a heap \<Rightarrow> nat \<Rightarrow> 'a WAtomic \<Rightarrow> 'a WValue \<times> 'a WAtomic" where
  "load_value_p heap core_p at =
     (m_value_p (heap core_p), at\<lparr>m_history := m_history at @ [LoadValue core_p]\<rparr>)"

section \<open>WVar operations inside a transaction (wstm/stm.h, class WVar)\<close>

text \<open>
  \<^verbatim>\<open>WReadLockGuard<WAtomic> lock (at)\<close> calls \<^verbatim>\<open>at.ReadLock ()\<close>; \<^verbatim>\<open>lock.Unlock ()\<close> calls
  \<^verbatim>\<open>at.ReadUnlock ()\<close> and clears the guard, so that the guard's destructor does nothing more.

  \<^verbatim>\<open>WVar::Get\<close>: ask the transaction for a value of this core; when there is none, load the
  core's value pointer between lock and unlock, record it as gotten, and return its payload.
\<close>

definition WVar_Get :: "'a heap \<Rightarrow> WVar \<Rightarrow> 'a WAtomic \<Rightarrow> 'a \<times> 'a WAtomic" where
  "WVar_Get heap var at =
     (case GetVarValue at (m_core_p var) of
        Some val_p \<Rightarrow> (m_value val_p, at)
      | None \<Rightarrow>
          (let at1 = WAtomic_ReadLock at;
               (value_p, at2) = load_value_p heap (m_core_p var) at1;
               at3 = WAtomic_ReadUnlock at2;
               at4 = SetVarGetValue at3 (m_core_p var) value_p
           in (m_value value_p, at4)))"

text \<open>
  \<^verbatim>\<open>WVar::Set (val, at)\<close>: when the transaction has no pending value for this core, read the
  core's version between lock and unlock and insert \<^verbatim>\<open>WValue (oldVersion + 1, val)\<close>;
  otherwise assign \<^verbatim>\<open>val_p->m_value = val\<close> through the pointer into the write set.
\<close>

definition WVar_Set :: "'a heap \<Rightarrow> WVar \<Rightarrow> 'a \<Rightarrow> 'a WAtomic \<Rightarrow> 'a WAtomic" where
  "WVar_Set heap var val at =
     (case GetVarSetValue at (m_core_p var) of
        None \<Rightarrow>
          (let at1 = WAtomic_ReadLock at;
               (cur_p, at2) = load_value_p heap (m_core_p var) at1;
               oldVersion = m_version cur_p;
               at3 = WAtomic_ReadUnlock at2;
               newVal_p = \<lparr>m_version = oldVersion + 1, m_value = val\<rparr>
           in SetVarValue at3 (m_core_p var) newVal_p)
      | Some val_p \<Rightarrow>
          at\<lparr>m_set := (m_set at)(m_core_p var \<mapsto> val_p\<lparr>m_value := val\<rparr>)\<rparr>)"

text \<open>
  \<^verbatim>\<open>WVar::Validate (at)\<close>: only a gotten value is validated; an invalid one throws
  \<^verbatim>\<open>WFailedValidationException\<close> after the lock has been released.
\<close>

datatype exn = WFailedValidationException

definition WVar_Validate :: "'a heap \<Rightarrow> WVar \<Rightarrow> 'a WAtomic \<Rightarrow> exn + 'a WAtomic" where
  "WVar_Validate heap var at =
     (case GetVarGotValue at (m_core_p var) of
        None \<Rightarrow> Inr at
      | Some val_p \<Rightarrow>
          (let at1 = WAtomic_ReadLock at;
               at2 = at1\<lparr>m_history := m_history at1 @ [LoadValue (m_core_p var)]\<rparr>;
               valid = WVarCore_Validate (heap (m_core_p var)) val_p;
               at3 = WAtomic_ReadUnlock at2
           in if \<not> valid then Inl WFailedValidationException else Inr at3))"

section \<open>Inconsistent reads (wstm/stm.h, classes WInconsistent and WVar)\<close>

text \<open>
  \<^verbatim>\<open>WInconsistent\<close> declares a shared lock on the library's upgrade mutex and a lock count.
  \<open>m_lock\<close> is whether the shared lock is owned; \<open>m_calls\<close> is the history of lock calls and
  loads, as for a transaction.
\<close>

record WInconsistent =
  m_lock :: bool
  m_lockCount :: size_t
  m_calls :: "lock_event list"

text \<open>
  Modelled from the spec: \<^verbatim>\<open>WInconsistent::ReadLock\<close> (stm.cpp, missing); the lock is taken
  when the count was zero and is held until \<^verbatim>\<open>ReadUnlock\<close> has been called as many times.
\<close>

definition WInconsistent_ReadLock :: "WInconsistent \<Rightarrow> WInconsistent" where
  "WInconsistent_ReadLock ins =
     ins\<lparr>m_lock := True, m_lockCount := m_lockCount ins + 1,
         m_calls := m_calls ins @ [ReadLockCall]\<rparr>"

text \<open>Modelled from the spec: \<^verbatim>\<open>WInconsistent::ReadUnlock\<close> (stm.cpp, missing).\<close>

definition WInconsistent_ReadUnlock :: "WInconsistent \<Rightarrow> WInconsistent" where
  "WInconsistent_ReadUnlock ins =
     ins\<lparr>m_lock := (m_lockCount ins - 1 \<noteq> 0), m_lockCount := m_lockCount ins - 1,
         m_calls := m_calls ins @ [ReadUnlockCall]\<rparr>"

text \<open>
  \<^verbatim>\<open>WVar::GetInconsistent (ins)\<close>: lock, copy the core's value pointer, unlock, return the
  payload. No transaction object takes part. (The source names the type of the copy
  \<^verbatim>\<open>WValue<Type_t>::ConstPtr\<close>, which this header does not declare; it is read as the shared
  pointer to the constant value.)
\<close>

definition WVar_GetInconsistent :: "'a heap \<Rightarrow> WVar \<Rightarrow> WInconsistent \<Rightarrow> 'a \<times> WInconsistent" where
  "WVar_GetInconsistent heap var ins =
     (let ins1 = WInconsistent_ReadLock ins;
          val_p = m_value_p (heap (m_core_p var));
          ins2 = ins1\<lparr>m_calls := m_calls ins1 @ [LoadValue (m_core_p var)]\<rparr>;
          ins3 = WInconsistent_ReadUnlock ins2
      in (m_value val_p, ins3))"

section \<open>Sequences of operations\<close>

text \<open>
  What a transaction's closure does to its transaction object: a list of \<open>Get\<close> and \<open>Set\<close>
  calls, each run against the heap as it is at that moment (other threads may have
  committed in between).
\<close>

datatype 'a tx_op = OpGet WVar | OpSet WVar 'a

fun tx_step :: "'a heap \<Rightarrow> 'a tx_op \<Rightarrow> 'a WAtomic \<Rightarrow> 'a WAtomic" where
  "tx_step heap (OpGet var) at = snd (WVar_Get heap var at)"
| "tx_step heap (OpSet var val) at = WVar_Set heap var val at"

fun run_ops :: "'a WAtomic \<Rightarrow> ('a heap \<times> 'a tx_op) list \<Rightarrow> 'a WAtomic" where
  "run_ops at [] = at"
| "run_ops at ((heap, opr) # rest) = run_ops (tx_step heap opr at) rest"

fun sets_var :: "WVar \<Rightarrow> 'a tx_op \<Rightarrow> bool" where
  "sets_var var (OpGet var') = False"
| "sets_var var (OpSet var' val) = (m_core_p var' = m_core_p var)"

fun gets_var :: "WVar \<Rightarrow> 'a tx_op \<Rightarrow> bool" where
  "gets_var var (OpGet var') = (m_core_p var' = m_core_p var)"
| "gets_var var (OpSet var' val) = False"

section \<open>The commit\<close>

text \<open>
  Modelled from the spec: a cell's lock and its change channel, the retry-waiters parked
  on the cell (threads, by number), are in stm.cpp, which is missing. They are the
  spec's \<open>lock\<close> and \<open>wakers\<close> fields of a Cell; the value and the version are the core's.
\<close>

datatype lock_mode = Unlocked | ReadLocked | UpgradeLocked | ExclusiveLocked

record channel =
  ch_lock :: lock_mode
  ch_wakers :: "nat list"

text \<open>
  Modelled from the spec: the value part of \<open>commit_write\<close> (Cell Core), which replaces the
  value and increments the version, around the core's \<^verbatim>\<open>Commit\<close>: the pending value is
  given the cell's current version plus one and installed by \<^verbatim>\<open>WVarCore::Commit\<close>, which
  returns the prior value.
\<close>

definition commit_core :: "'a WValue \<Rightarrow> 'a WVarCore \<Rightarrow> 'a WValue \<times> 'a WVarCore" where
  "commit_core new_value core =
     WVarCore_Commit core (new_value\<lparr>m_version := m_version (m_value_p core) + 1\<rparr>)"

text \<open>
  Modelled from the spec: \<open>commit_write (new_value, exclusive_guard)\<close> of the Cell Core,
  missing with stm.cpp: it replaces the value, increments the version, signals all wakers
  (transferring them off the channel) and gives the prior value. The guard is the
  exclusive lock held on the cell; without it there is no such operation (\<open>None\<close>). The
  result is the prior value, the waiters signalled, and the core and channel afterwards.
\<close>

definition commit_write ::
  "'a WValue \<Rightarrow> 'a WVarCore \<times> channel
     \<Rightarrow> ('a WValue \<times> nat list \<times> 'a WVarCore \<times> channel) option" where
  "commit_write new_value cell =
     (case cell of (core, ch) \<Rightarrow>
        if ch_lock ch = ExclusiveLocked
        then (let (old_p, core') = commit_core new_value core
              in Some (old_p, ch_wakers ch, core', ch\<lparr>ch_wakers := []\<rparr>))
        else None)"

text \<open>
  Modelled from the spec: the publication of one cell's pending write (Commit Engine,
  step 6) on a heap of cores alone, that is \<open>commit_write\<close> without the channel. The result
  is the prior value, if the cell had a pending value, and the heap afterwards.
\<close>

definition publish :: "'a heap \<Rightarrow> 'a WAtomic \<Rightarrow> nat \<Rightarrow> 'a WValue option \<times> 'a heap" where
  "publish heap at core_p =
     (case GetVarSetValue at core_p of
        None \<Rightarrow> (None, heap)
      | Some val_p \<Rightarrow>
          (let (old_p, core') = commit_core val_p (heap core_p)
           in (Some old_p, heap(core_p := core'))))"

text \<open>
  Modelled from the spec: the state the threads share, for the transaction's commit
  (\<^verbatim>\<open>WAtomic::Commit\<close> and \<^verbatim>\<open>WAtomic::DoValidation\<close>, declared in stm.h, bodies in stm.cpp): the
  cells that exist, their cores and their channels.
\<close>

record 'a shared =
  sh_cells :: "nat list"
  sh_heap :: "'a heap"
  sh_channel :: "nat \<Rightarrow> channel"

text \<open>
  Modelled from the spec: the validation of the read set (Commit Engine, steps 3 and 5):
  for each cell with a snapshot, the cell's version equals the snapshot's.
\<close>

definition DoValidation :: "'a shared \<Rightarrow> 'a WAtomic \<Rightarrow> bool" where
  "DoValidation S at =
     list_all
       (\<lambda>c. case GetVarGotValue at c of
               None \<Rightarrow> True
             | Some snapshot \<Rightarrow> WVarCore_Validate (sh_heap S c) snapshot)
       (sh_cells S)"

text \<open>
  Modelled from the spec: what the commit does to one cell (Commit Engine, steps 4, 6 and
  7): a cell in the write set is locked exclusively, written by \<open>commit_write\<close> and
  unlocked; any other cell is left as it is. The result is the waiters signalled, the
  core and the channel.
\<close>

definition publish_cell ::
  "'a WAtomic \<Rightarrow> nat \<Rightarrow> 'a WVarCore \<times> channel \<Rightarrow> nat list \<times> 'a WVarCore \<times> channel" where
  "publish_cell at c cell =
     (case GetVarSetValue at c of
        None \<Rightarrow> ([], cell)
      | Some val_p \<Rightarrow>
          (case commit_write val_p (fst cell, (snd cell)\<lparr>ch_lock := ExclusiveLocked\<rparr>) of
             Some (old_p, signalled, core', ch') \<Rightarrow> (signalled, core', ch'\<lparr>ch_lock := Unlocked\<rparr>)
           | None \<Rightarrow> ([], cell)))"

text \<open>
  Modelled from the spec: the commit of a top-level transaction (Commit Engine, steps 2 to
  7; hooks are not modelled). A read set that does not validate is a conflict and nothing
  is written; otherwise every pending write is published. The result of a commit is the
  waiters signalled and the shared state afterwards.
\<close>

datatype abort = ConflictAbort

definition WAtomic_Commit :: "'a shared \<Rightarrow> 'a WAtomic \<Rightarrow> abort + (nat list \<times> 'a shared)" where
  "WAtomic_Commit S at =
     (if DoValidation S at
      then Inr (concat (map (\<lambda>c. fst (publish_cell at c (sh_heap S c, sh_channel S c)))
                          (sh_cells S)),
                S\<lparr>sh_heap := (\<lambda>c. fst (snd (publish_cell at c (sh_heap S c, sh_channel S c)))),
                   sh_channel := (\<lambda>c. snd (snd (publish_cell at c (sh_heap S c, sh_channel S c))))\<rparr>)
      else Inl ConflictAbort)"


text \<open>
  Transactions that write one cell that they have not read. The cell starts as
  \<^verbatim>\<open>WVar (0)\<close>; transaction A sets 10, transaction B sets 20, B commits, then A commits (A's
  read set is empty, so its commit has nothing to validate).
\<close>

definition race_var :: WVar where
  "race_var = \<lparr>m_core_p = 0\<rparr>"

definition race_heap0 :: "nat heap" where
  "race_heap0 = (\<lambda>core_p. WVarCore_new 0)"

definition race_txA :: "nat WAtomic" where
  "race_txA = WVar_Set race_heap0 race_var 10 WAtomic_new"

definition race_txB :: "nat WAtomic" where
  "race_txB = WVar_Set race_heap0 race_var 20 WAtomic_new"

definition race_heap1 :: "nat heap" where
  "race_heap1 = snd (publish race_heap0 race_txB 0)"

definition race_heap2 :: "nat heap" where
  "race_heap2 = snd (publish race_heap1 race_txA 0)"






section \<open>Conflict profiling: pages and frames (src/conflict_profiling_internal.cpp)\<close>

text \<open>
  The header that declares \<^verbatim>\<open>pageSize\<close>, \<^verbatim>\<open>pagePadding\<close>, \<^verbatim>\<open>FrameType\<close> and the classes is
  missing; the two constants and the sizes of the frame structures and of a pointer are
  parameters of the model.
\<close>

record layout =
  pageSize :: size_t
  pagePadding :: size_t
  sizeof_WTransaction :: size_t
  sizeof_WVarName :: size_t
  sizeof_ptr :: size_t

datatype FrameType = varName | commit | conflict | nameData

text \<open>
  The frame structures of namespace \<^verbatim>\<open>Frames\<close>. A \<^verbatim>\<open>const char*\<close> is a string or null, a time
  point a number of ticks; the source casts the \<^verbatim>\<open>int\<close> line and the \<^verbatim>\<open>size_t\<close> number of
  variables to \<^verbatim>\<open>uint32_t\<close>.
\<close>

record WFrameHeader =
  m_type :: FrameType
  m_name :: "string option"

record WVarName = WFrameHeader +
  m_var_p :: nat

record WTransaction = WFrameHeader +
  m_threadId :: nat
  m_threadName :: "string option"
  m_start :: nat
  m_end :: nat
  m_file :: "string option"
  m_line :: "32 word"
  m_numVars :: "32 word"

text \<open>
  A page is a byte array of \<open>pageSize + 2 * pagePadding\<close> bytes and the number of bytes used.
  The array is modelled by the objects the recorder has stored in its used part, each
  with the byte offset it was stored at; a pointer into the array is its offset, and
  \<open>None\<close> is the null pointer. The integrity checks are assertions and are left out.
\<close>

datatype slot = TransactionFrame WTransaction | VarNameFrame WVarName | VarPointer nat

record WPage =
  m_data :: "(nat \<times> slot) list"
  m_used :: size_t

definition WPage_new :: WPage where
  "WPage_new = \<lparr>m_data = [], m_used = 0\<rparr>"

definition GetUsed :: "WPage \<Rightarrow> size_t" where
  "GetUsed page = m_used page"

definition GetLeft :: "layout \<Rightarrow> WPage \<Rightarrow> size_t" where
  "GetLeft L page = pageSize L - m_used page"

definition Reserve :: "layout \<Rightarrow> size_t \<Rightarrow> WPage \<Rightarrow> nat option \<times> WPage" where
  "Reserve L numBytes page =
     (if numBytes \<le> GetLeft L page
      then (let pos_p = unat (pagePadding L) + unat (m_used page)
            in (Some pos_p, page\<lparr>m_used := m_used page + numBytes\<rparr>))
      else (None, page))"

text \<open>
  The pages of a thread are chained by \<^verbatim>\<open>m_next_p\<close> from \<^verbatim>\<open>m_firstPage_p\<close>, and \<^verbatim>\<open>m_curPage_p\<close>
  points into the chain: the chain is the pages before the current one, the current
  page, and the pages after it. \<^verbatim>\<open>NewPage\<close> makes a next page when there is none and
  returns the next page; \<^verbatim>\<open>Clear\<close> resets the count of a page and of all after it, so
  that no object is in the used part any more and what is stored later overwrites the
  old bytes.
\<close>

type_synonym chain = "WPage list \<times> WPage \<times> WPage list"

definition NewPage :: "chain \<Rightarrow> chain" where
  "NewPage c =
     (case c of (prev, cur, rest) \<Rightarrow>
        (case rest of
           [] \<Rightarrow> (prev @ [cur], WPage_new, [])
         | next_p # others \<Rightarrow> (prev @ [cur], next_p, others)))"

definition Clear :: "chain \<Rightarrow> chain" where
  "Clear c =
     (case c of (prev, cur, rest) \<Rightarrow>
        (map (\<lambda>p. p\<lparr>m_data := [], m_used := 0\<rparr>) prev,
         cur\<lparr>m_data := [], m_used := 0\<rparr>,
         map (\<lambda>p. p\<lparr>m_data := [], m_used := 0\<rparr>) rest))"

section \<open>Conflict profiling: the recorder of one thread\<close>

text \<open>
  \<open>m_pages\<close> is \<^verbatim>\<open>m_firstPage_p\<close> with \<^verbatim>\<open>m_curPage_p\<close>: \<open>None\<close> when both are null. The main
  data's clear index, the thread's id and the clock are read from outside and are
  arguments. \<^verbatim>\<open>m_inChildTransaction\<close> is an \<^verbatim>\<open>unsigned int\<close>.
\<close>

record WThreadData =
  m_pages :: "chain option"
  m_clearIndex :: size_t
  m_threadName_td :: "string option"
  m_curTransactionFile :: "string option"
  m_curTransactionLine :: "32 word"
  m_curTransactionName :: "string option"
  m_curTransactionStart :: nat
  m_inChildTransaction :: "32 word"

datatype crash = NullDereference

definition WThreadData_new :: "size_t \<Rightarrow> WThreadData" where
  "WThreadData_new mainClearIndex =
     \<lparr>m_pages = None, m_clearIndex = mainClearIndex, m_threadName_td = None,
      m_curTransactionFile = None, m_curTransactionLine = - 1, m_curTransactionName = None,
      m_curTransactionStart = 0, m_inChildTransaction = 0\<rparr>"

definition NotInChildTransaction :: "WThreadData \<Rightarrow> bool" where
  "NotInChildTransaction td = (m_inChildTransaction td = 1)"

text \<open>
  \<^verbatim>\<open>StartTransaction\<close> as compiled with \<^verbatim>\<open>WSTM_CONFLICT_PROFILING\<close>; the object it returns
  decrements the counter when it is destroyed (\<^verbatim>\<open>WOnTransactionEnd::~WOnTransactionEnd\<close>).
\<close>

definition StartTransaction :: "string option \<Rightarrow> 32 word \<Rightarrow> WThreadData \<Rightarrow> WThreadData" where
  "StartTransaction file line td =
     (let td1 = (if m_inChildTransaction td = 0
                 then td\<lparr>m_curTransactionFile := file, m_curTransactionLine := line,
                         m_curTransactionName := None\<rparr>
                 else td)
      in td1\<lparr>m_inChildTransaction := m_inChildTransaction td1 + 1\<rparr>)"

definition WOnTransactionEnd_destroy :: "WThreadData \<Rightarrow> WThreadData" where
  "WOnTransactionEnd_destroy td = td\<lparr>m_inChildTransaction := m_inChildTransaction td - 1\<rparr>"

definition StartTransactionAttempt :: "nat \<Rightarrow> WThreadData \<Rightarrow> WThreadData" where
  "StartTransactionAttempt now td =
     (if NotInChildTransaction td then td\<lparr>m_curTransactionStart := now\<rparr> else td)"

text \<open>
  \<^verbatim>\<open>GetNextDest (size)\<close>: clear the pages when the main data has been cleared (through
  \<^verbatim>\<open>m_firstPage_p\<close>, a null dereference when the thread has no page yet); move to the next
  page when the current one has too little room, or make the first page; reserve.
\<close>

definition GetNextDest ::
  "layout \<Rightarrow> size_t \<Rightarrow> size_t \<Rightarrow> WThreadData \<Rightarrow> crash + (nat option \<times> WThreadData)" where
  "GetNextDest L mainClearIndex size_b td =
     (if m_clearIndex td \<noteq> mainClearIndex \<and> m_pages td = None then Inl NullDereference
      else
        (let pages1 = (if m_clearIndex td \<noteq> mainClearIndex then map_option Clear (m_pages td)
                       else m_pages td);
             (prev, cur, rest) =
               (case pages1 of
                  Some (prev, cur, rest) \<Rightarrow>
                    if GetLeft L cur < size_b then NewPage (prev, cur, rest)
                    else (prev, cur, rest)
                | None \<Rightarrow> ([], WPage_new, []));
             (dest_p, cur') = Reserve L size_b cur
         in Inr (dest_p, td\<lparr>m_pages := Some (prev, cur', rest)\<rparr>)))"

text \<open>
  One turn of the loop of \<^verbatim>\<open>TransactionEnd\<close> that stores the variables' addresses, from
  \<open>varsIt\<close> on, with \<open>varMemLeft\<close> bytes still to store: the result is the bytes left, the
  variables left and the chain. \<open>Reserve\<close> is asked for no more than is left on the page.
\<close>

definition store_pointers :: "layout \<Rightarrow> nat \<Rightarrow> nat list \<Rightarrow> WPage \<Rightarrow> WPage" where
  "store_pointers L pos ptrs page =
     page\<lparr>m_data := m_data page @
        map (\<lambda>(k, v). (pos + k * unat (sizeof_ptr L), VarPointer v)) (enumerate 0 ptrs)\<rparr>"

definition write_vars_step ::
  "layout \<Rightarrow> size_t \<Rightarrow> nat list \<Rightarrow> chain \<Rightarrow> size_t \<times> nat list \<times> chain" where
  "write_vars_step L varMemLeft varsIt c =
     (let memToUse0 = min varMemLeft (GetLeft L (fst (snd c)));
          numThatFit0 = memToUse0 div sizeof_ptr L;
          (prev, cur, rest) = (if numThatFit0 = 0 then NewPage c else c);
          memToUse = (if numThatFit0 = 0 then min varMemLeft (GetLeft L cur) else memToUse0);
          numThatFit = (if numThatFit0 = 0 then memToUse div sizeof_ptr L else numThatFit0);
          (vars_p, cur1) = Reserve L memToUse cur;
          cur2 = (case vars_p of
                    Some pos \<Rightarrow> store_pointers L pos (take (unat numThatFit) varsIt) cur1
                  | None \<Rightarrow> cur1)
      in (varMemLeft - memToUse, drop (unat numThatFit) varsIt, (prev, cur2, rest)))"

text \<open>
  The loop \<^verbatim>\<open>while (varMemLeft > 0)\<close>. It does not end when a page has no room at all
  (\<open>pageSize = 0\<close>): the result \<open>None\<close> is the loop that runs forever.
\<close>

partial_function (option) write_vars ::
  "layout \<Rightarrow> size_t \<Rightarrow> nat list \<Rightarrow> chain \<Rightarrow> chain option" where
  "write_vars L varMemLeft varsIt c =
     (if 0 < varMemLeft
      then (case write_vars_step L varMemLeft varsIt c of
              (varMemLeft', varsIt', c') \<Rightarrow> write_vars L varMemLeft' varsIt' c')
      else Some c)"

declare write_vars.simps [code]

text \<open>
  \<^verbatim>\<open>TransactionEnd (type, end, vars)\<close>: nothing unless \<^verbatim>\<open>NotInChildTransaction ()\<close>; else a
  transaction frame at the next destination (a null destination is dereferenced), then
  the addresses of the variables. \<open>vars\<close> is the keys of the source's map, in its order.
\<close>

definition TransactionEnd ::
  "layout \<Rightarrow> size_t \<Rightarrow> nat \<Rightarrow> FrameType \<Rightarrow> nat \<Rightarrow> nat list \<Rightarrow> WThreadData
     \<Rightarrow> (crash + WThreadData) option" where
  "TransactionEnd L mainClearIndex threadId type endt vars td =
     (if NotInChildTransaction td
      then
        (case GetNextDest L mainClearIndex (sizeof_WTransaction L) td of
           Inl c \<Rightarrow> Some (Inl c)
         | Inr (dest_p, td1) \<Rightarrow>
             (case (dest_p, m_pages td1) of
                (Some pos, Some (prev, cur, rest)) \<Rightarrow>
                  (let frame = \<lparr>m_type = type, m_name = m_curTransactionName td1,
                                m_threadId = threadId, m_threadName = m_threadName_td td1,
                                m_start = m_curTransactionStart td1, m_end = endt,
                                m_file = m_curTransactionFile td1,
                                m_line = m_curTransactionLine td1,
                                m_numVars = ucast (word_of_nat (length vars) :: size_t)\<rparr>;
                       cur1 = cur\<lparr>m_data := m_data cur @ [(pos, TransactionFrame frame)]\<rparr>;
                       varMemLeft = sizeof_ptr L * word_of_nat (length vars)
                   in map_option (\<lambda>c. Inr (td1\<lparr>m_pages := Some c\<rparr>))
                        (write_vars L varMemLeft vars (prev, cur1, rest)))
              | _ \<Rightarrow> Some (Inl NullDereference)))
      else Some (Inr td))"

definition Commit ::
  "layout \<Rightarrow> size_t \<Rightarrow> nat \<Rightarrow> nat \<Rightarrow> nat list \<Rightarrow> WThreadData \<Rightarrow> (crash + WThreadData) option" where
  "Commit L mainClearIndex threadId endt setVars td =
     TransactionEnd L mainClearIndex threadId commit endt setVars td"

definition Conflict ::
  "layout \<Rightarrow> size_t \<Rightarrow> nat \<Rightarrow> nat \<Rightarrow> nat list \<Rightarrow> WThreadData \<Rightarrow> (crash + WThreadData) option" where
  "Conflict L mainClearIndex threadId endt getVars td =
     TransactionEnd L mainClearIndex threadId conflict endt getVars td"

definition NameTransaction :: "string option \<Rightarrow> WThreadData \<Rightarrow> WThreadData" where
  "NameTransaction name td =
     (if NotInChildTransaction td then td\<lparr>m_curTransactionName := name\<rparr> else td)"

section \<open>A small profiling run\<close>

text \<open>
  A layout with pages of 128 bytes, a transaction frame of 64 bytes and pointers of 8
  bytes; a thread inside a top-level transaction, and the same thread inside a child
  transaction of it.
\<close>

definition demo_layout :: layout where
  "demo_layout =
     \<lparr>pageSize = 128, pagePadding = 8, sizeof_WTransaction = 64, sizeof_WVarName = 24,
      sizeof_ptr = 8\<rparr>"

definition demo_top :: WThreadData where
  "demo_top = StartTransaction (Some ''f.cpp'') 7 (WThreadData_new 0)"

definition demo_child :: WThreadData where
  "demo_child = StartTransaction (Some ''g.cpp'') 9 demo_top"

section \<open>Facts shared by the proofs\<close>

lemmas tx_defs = GetVarValue_def GetVarSetValue_def GetVarGotValue_def SetVarGetValue_def
  SetVarValue_def WAtomic_ReadLock_def WAtomic_ReadUnlock_def load_value_p_def

lemmas race_defs = race_var_def race_heap0_def race_txA_def race_txB_def race_heap1_def
  race_heap2_def publish_def commit_core_def WVarCore_new_def WVarCore_Commit_def
  WAtomic_new_def


lemma word_reserve_fits:
  fixes used n ps :: size_t
  assumes "used \<le> ps" "n \<le> ps - used"
  shows "unat (used + n) = unat used + unat n" "used + n \<le> ps"
  using assms by unat_arith+





lemma commit_core_eq:
  "commit_core p core =
     (m_value_p core, core\<lparr>m_value_p := p\<lparr>m_version := m_version (m_value_p core) + 1\<rparr>\<rparr>)"
  by (simp add: commit_core_def WVarCore_Commit_def)

lemma publish_cell_core:
  "fst (snd (publish_cell at c (core, ch))) =
     (case GetVarSetValue at c of None \<Rightarrow> core | Some p \<Rightarrow> snd (commit_core p core))"
  by (simp add: publish_cell_def commit_write_def commit_core_eq split: option.splits)

lemma WAtomic_Commit_heap:
  "WAtomic_Commit S at = Inr (signalled, S') \<Longrightarrow>
     sh_heap S' c = (case GetVarSetValue at c of
                       None \<Rightarrow> sh_heap S c
                     | Some p \<Rightarrow> snd (commit_core p (sh_heap S c)))"
  by (auto simp add: WAtomic_Commit_def publish_cell_core split: if_splits)

lemma publish_is_commit_heap:
  "WAtomic_Commit S at = Inr (signalled, S') \<Longrightarrow> sh_heap S' c = snd (publish (sh_heap S) at c) c"
  by (simp add: WAtomic_Commit_heap publish_def commit_core_eq split: option.splits)







text \<open>
  Once \<open>Get\<close> has returned, the transaction holds a value for the cell, and it keeps that
  very value as long as no \<open>Set\<close> of the cell is run.
\<close>

lemma Get_caches:
  "\<exists>p. GetVarValue (snd (WVar_Get h var at)) (m_core_p var) = Some p
        \<and> m_value p = fst (WVar_Get h var at)"
  by (auto simp add: WVar_Get_def tx_defs split: option.splits)

lemma step_keeps_value:
  "GetVarValue at (m_core_p var) = Some p \<Longrightarrow> \<not> sets_var var opr \<Longrightarrow>
     GetVarValue (tx_step h opr at) (m_core_p var) = Some p"
  by (cases opr) (auto simp add: WVar_Get_def WVar_Set_def tx_defs split: option.splits)

lemma run_keeps_value:
  "GetVarValue at (m_core_p var) = Some p \<Longrightarrow> \<forall>x \<in> set ops. \<not> sets_var var (snd x) \<Longrightarrow>
     GetVarValue (run_ops at ops) (m_core_p var) = Some p"
proof (induction ops arbitrary: at)
  case Nil
  then show ?case by simp
next
  case (Cons a ops)
  obtain h opr where a: "a = (h, opr)" by (cases a)
  from Cons.prems a have "GetVarValue (tx_step h opr at) (m_core_p var) = Some p"
    by (simp add: step_keeps_value)
  with Cons a show ?case by simp
qed

lemma Get_of_cached:
  "GetVarValue at (m_core_p var) = Some p \<Longrightarrow> fst (WVar_Get h var at) = m_value p"
  by (simp add: WVar_Get_def)

lemma Get_repeatable:
  assumes "\<forall>x \<in> set ops. \<not> sets_var var (snd x)"
  shows "fst (WVar_Get h2 var (run_ops (snd (WVar_Get h1 var at)) ops)) = fst (WVar_Get h1 var at)"
proof -
  obtain p where p: "GetVarValue (snd (WVar_Get h1 var at)) (m_core_p var) = Some p"
    "m_value p = fst (WVar_Get h1 var at)"
    using Get_caches by blast
  from run_keeps_value [OF p(1) assms]
  have "GetVarValue (run_ops (snd (WVar_Get h1 var at)) ops) (m_core_p var) = Some p" .
  then show ?thesis using p(2) by (simp add: Get_of_cached)
qed

text \<open>A snapshot whose version is not the cell's current version fails validation.\<close>

lemma Validate_stale:
  "GetVarGotValue at (m_core_p var) = Some s \<Longrightarrow>
   m_version s \<noteq> m_version (m_value_p (h (m_core_p var))) \<Longrightarrow>
     WVar_Validate h var at = Inl WFailedValidationException"
  by (simp add: WVar_Validate_def tx_defs WVarCore_Validate_def)

text \<open>A cell that is not in the read set stays out of it as long as no \<open>Get\<close> of it is run.\<close>

lemma step_keeps_not_got:
  "GetVarGotValue at (m_core_p var) = None \<Longrightarrow> \<not> gets_var var opr \<Longrightarrow>
     GetVarGotValue (tx_step h opr at) (m_core_p var) = None"
  by (cases opr) (auto simp add: WVar_Get_def WVar_Set_def tx_defs split: option.splits)

lemma run_keeps_not_got:
  "GetVarGotValue at (m_core_p var) = None \<Longrightarrow> \<forall>x \<in> set ops. \<not> gets_var var (snd x) \<Longrightarrow>
     GetVarGotValue (run_ops at ops) (m_core_p var) = None"
proof (induction ops arbitrary: at)
  case Nil
  then show ?case by simp
next
  case (Cons a ops)
  obtain h opr where a: "a = (h, opr)" by (cases a)
  from Cons.prems a have "GetVarGotValue (tx_step h opr at) (m_core_p var) = None"
    by (simp add: step_keeps_not_got)
  with Cons a show ?case by simp
qed

text \<open>
  The loop of \<open>TransactionEnd\<close> ends when a page has room at all: every turn either stores
  some bytes or moves to a page that was already in the chain.
\<close>

lemma Reserve_of_min:
  "Reserve L (min x (GetLeft L page)) page =
     (Some (unat (pagePadding L) + unat (m_used page)),
      page\<lparr>m_used := m_used page + min x (GetLeft L page)\<rparr>)"
  by (simp add: Reserve_def)

lemma NewPage_rest:
  "NewPage (prev, cur, rest) = (prev', cur', rest') \<Longrightarrow>
     (rest = [] \<and> cur' = WPage_new \<and> rest' = []) \<or> (rest = cur' # rest')"
  by (auto simp add: NewPage_def split: list.splits)

lemma word_sub_min_le:
  fixes m g :: size_t
  shows "unat (m - min m g) \<le> unat m"
proof -
  have "min m g \<le> m" by simp
  then have "unat (m - min m g) = unat m - unat (min m g)"
    by (simp add: unat_sub)
  then show ?thesis by simp
qed

lemma word_sub_min_less:
  fixes m g :: size_t
  assumes "0 < m" "min m g \<noteq> 0"
  shows "unat (m - min m g) < unat m"
proof -
  have le: "min m g \<le> m" by simp
  have "unat (m - min m g) = unat m - unat (min m g)"
    using le by (simp add: unat_sub)
  moreover have "0 < unat (min m g)" using assms(2) by (simp add: unat_gt_0)
  moreover have "unat (min m g) \<le> unat m" using le by (simp add: word_le_nat_alt)
  ultimately show ?thesis by arith
qed

lemma step_decreases:
  assumes "0 < m" "pageSize L \<noteq> 0"
    and "write_vars_step L m vs (prev, cur, rest) = (m', vs', (prev', cur', rest'))"
  shows "unat m' < unat m \<or> (unat m' \<le> unat m \<and> length rest' < length rest)"
proof (cases "min m (GetLeft L cur) div sizeof_ptr L = 0")
  case False
  then have nz: "min m (GetLeft L cur) \<noteq> 0" by auto
  from assms(3) False have "m' = m - min m (GetLeft L cur)"
    by (simp add: write_vars_step_def Let_def Reserve_of_min split: prod.splits)
  with word_sub_min_less [OF assms(1) nz] show ?thesis by simp
next
  case True
  obtain p1 c1 r1 where np: "NewPage (prev, cur, rest) = (p1, c1, r1)"
    by (cases "NewPage (prev, cur, rest)") auto
  from assms(3) True np have m': "m' = m - min m (GetLeft L c1)" and r': "rest' = r1"
    by (simp_all add: write_vars_step_def Let_def Reserve_of_min split: prod.splits)
  from NewPage_rest [OF np] show ?thesis
  proof
    assume "rest = [] \<and> c1 = WPage_new \<and> r1 = []"
    then have "GetLeft L c1 = pageSize L" by (simp add: GetLeft_def WPage_new_def)
    with assms(1,2) have "min m (GetLeft L c1) \<noteq> 0"
      by (auto simp add: min_def)
    from word_sub_min_less [OF assms(1) this] m' show ?thesis by simp
  next
    assume "rest = c1 # r1"
    with r' have "length rest' < length rest" by simp
    with word_sub_min_le [of m "GetLeft L c1"] m' show ?thesis by simp
  qed
qed

lemma write_vars_terminates:
  assumes "pageSize L \<noteq> 0"
  shows "\<exists>c'. write_vars L m vs c = Some c'"
proof (induction "(unat m, length (snd (snd c)))" arbitrary: m vs c
    rule: wf_induct_rule [OF wf_less_than [THEN wf_lex_prod, OF wf_less_than]])
  case 1
  obtain prev cur rest where c: "c = (prev, cur, rest)" by (cases c) auto
  show ?case
  proof (cases "0 < m")
    case False
    then have "write_vars L m vs c = Some c" by (subst write_vars.simps) simp
    then show ?thesis by blast
  next
    case True
    obtain m' vs' prev' cur' rest'
      where st: "write_vars_step L m vs (prev, cur, rest) = (m', vs', (prev', cur', rest'))"
      by (metis prod_cases3)
    from step_decreases [OF True assms st]
    have "((unat m', length (snd (snd (prev', cur', rest')))), (unat m, length (snd (snd c))))
            \<in> less_than <*lex*> less_than"
      using c by auto
    from 1 [OF this] obtain c' where c': "write_vars L m' vs' (prev', cur', rest') = Some c'"
      by blast
    have "write_vars L m vs c = write_vars L m' vs' (prev', cur', rest')"
      using True st c by (subst write_vars.simps) simp
    with c' show ?thesis by (intro exI [of _ c']) simp
  qed
qed

text \<open>The small profiling run, evaluated.\<close>

lemma demo_child_count: "m_inChildTransaction demo_child = 2"
  by (simp add: demo_child_def demo_top_def StartTransaction_def WThreadData_new_def)

lemma demo_top_commit:
  "Commit demo_layout 0 1 5 [101, 102, 103, 104, 105, 106, 107, 108, 109, 110] demo_top =
     Some (Inr (demo_top\<lparr>m_pages := Some
       ([\<lparr>m_data =
            [(8, TransactionFrame
                  \<lparr>m_type = commit, m_name = None, m_threadId = 1, m_threadName = None,
                     m_start = 0, m_end = 5, m_file = Some ''f.cpp'', m_line = 7,
                     m_numVars = 10\<rparr>),
             (72, VarPointer 101), (80, VarPointer 102), (88, VarPointer 103),
             (96, VarPointer 104), (104, VarPointer 105), (112, VarPointer 106),
             (120, VarPointer 107), (128, VarPointer 108)],
          m_used = 128\<rparr>],
        \<lparr>m_data = [(8, VarPointer 109), (16, VarPointer 110)], m_used = 16\<rparr>,
        [])\<rparr>))"
  by code_simp

section \<open>Versions written by commits\<close>



section \<open>Cell core: commit\<close>



section \<open>Cell core: validation\<close>

text \<open>
  Claim C3. \<^verbatim>\<open>WVarCore::Validate (snapshot)\<close> is true if and only if the cell's current
  version equals the snapshot's version.
\<close>

theorem C3_validate_iff_same_version:
  "WVarCore_Validate core snapshot \<longleftrightarrow> m_version (m_value_p core) = m_version snapshot"
  by (auto simp add: WVarCore_Validate_def)

theorem C3_witness:
  "WVarCore_Validate (race_heap1 0) \<lparr>m_version = 1, m_value = 0::nat\<rparr>
   \<and> \<not> WVarCore_Validate (race_heap1 0) \<lparr>m_version = 0, m_value = 0::nat\<rparr>"
  using C3_validate_iff_same_version [of "race_heap1 0" "\<lparr>m_version = 1, m_value = 0::nat\<rparr>"]
    C3_validate_iff_same_version [of "race_heap1 0" "\<lparr>m_version = 0, m_value = 0::nat\<rparr>"]
  by (simp add: race_defs WVar_Set_def tx_defs)

section \<open>Get\<close>

text \<open>
  Claim C4. \<open>Get\<close> returns the pending value when the cell is in the write set; else the
  payload of the cached snapshot when the cell is in the read set; else it loads the
  cell's value between \<open>ReadLock\<close> and \<open>ReadUnlock\<close>, records it in the read set and returns
  its payload. Consequently a later \<open>Get\<close> of the same cell in the transaction returns the
  same payload, whatever other threads have committed meanwhile, unless a \<open>Set\<close> of that
  cell was run in between.
\<close>

theorem C4_get_pending_then_snapshot_then_cell:
  "(GetVarSetValue at (m_core_p var) = Some p \<longrightarrow> WVar_Get h var at = (m_value p, at))
   \<and> (GetVarSetValue at (m_core_p var) = None \<and> GetVarGotValue at (m_core_p var) = Some s
        \<longrightarrow> WVar_Get h var at = (m_value s, at))
   \<and> (GetVarSetValue at (m_core_p var) = None \<and> GetVarGotValue at (m_core_p var) = None
        \<longrightarrow> WVar_Get h var at =
              (m_value (m_value_p (h (m_core_p var))),
               at\<lparr>m_got := (m_got at)(m_core_p var \<mapsto> m_value_p (h (m_core_p var))),
                  m_history := m_history at @
                    [ReadLockCall, LoadValue (m_core_p var), ReadUnlockCall]\<rparr>))
   \<and> ((\<forall>x \<in> set ops. \<not> sets_var var (snd x))
        \<longrightarrow> fst (WVar_Get h2 var (run_ops (snd (WVar_Get h var at)) ops))
              = fst (WVar_Get h var at))"
proof (intro conjI impI)
  assume "GetVarSetValue at (m_core_p var) = Some p"
  then show "WVar_Get h var at = (m_value p, at)"
    by (simp add: WVar_Get_def tx_defs)
next
  assume "GetVarSetValue at (m_core_p var) = None \<and> GetVarGotValue at (m_core_p var) = Some s"
  then show "WVar_Get h var at = (m_value s, at)"
    by (simp add: WVar_Get_def tx_defs)
next
  assume "GetVarSetValue at (m_core_p var) = None \<and> GetVarGotValue at (m_core_p var) = None"
  then show "WVar_Get h var at =
      (m_value (m_value_p (h (m_core_p var))),
       at\<lparr>m_got := (m_got at)(m_core_p var \<mapsto> m_value_p (h (m_core_p var))),
          m_history := m_history at @ [ReadLockCall, LoadValue (m_core_p var), ReadUnlockCall]\<rparr>)"
    by (simp add: WVar_Get_def tx_defs)
next
  assume "\<forall>x \<in> set ops. \<not> sets_var var (snd x)"
  then show "fst (WVar_Get h2 var (run_ops (snd (WVar_Get h var at)) ops))
               = fst (WVar_Get h var at)"
    by (rule Get_repeatable)
qed

theorem C4_witness:
  "GetVarSetValue race_txA (m_core_p race_var) = Some \<lparr>m_version = 1, m_value = 10\<rparr>
   \<and> WVar_Get race_heap1 race_var race_txA = (10, race_txA)
   \<and> GetVarSetValue (WAtomic_new :: nat WAtomic) (m_core_p race_var) = None
   \<and> GetVarGotValue (WAtomic_new :: nat WAtomic) (m_core_p race_var) = None
   \<and> fst (WVar_Get race_heap0 race_var WAtomic_new) = 0
   \<and> m_got (snd (WVar_Get race_heap0 race_var WAtomic_new)) 0
       = Some \<lparr>m_version = 0, m_value = 0\<rparr>
   \<and> m_value (m_value_p (race_heap2 0)) = 10
   \<and> fst (WVar_Get race_heap2 race_var
          (run_ops (snd (WVar_Get race_heap0 race_var WAtomic_new))
             [(race_heap1, OpGet race_var), (race_heap1, OpSet \<lparr>m_core_p = 1\<rparr> 5)])) = 0"
  using C4_get_pending_then_snapshot_then_cell
      [of race_txA race_var "\<lparr>m_version = 1, m_value = 10\<rparr>" race_heap1
          "\<lparr>m_version = 0, m_value = 0\<rparr>" "[]" race_heap1]
    C4_get_pending_then_snapshot_then_cell
      [of "WAtomic_new :: nat WAtomic" race_var "\<lparr>m_version = 0, m_value = 0\<rparr>" race_heap0
          "\<lparr>m_version = 0, m_value = 0\<rparr>"
          "[(race_heap1, OpGet race_var), (race_heap1, OpSet \<lparr>m_core_p = 1\<rparr> 5)]" race_heap2]
  by (simp add: race_defs WVar_Get_def WVar_Set_def tx_defs)

section \<open>Set\<close>

text \<open>
  Claim C5. When the cell is in the write set, \<open>Set\<close> replaces the payload of the pending
  value and leaves its version and everything else as it is. Otherwise it loads the
  cell's value between \<open>ReadLock\<close> and \<open>ReadUnlock\<close> and inserts a pending value whose version
  is the cell's current version plus one. In both cases the pending payload is then \<open>v\<close>;
  the argument is a value of the caller's that the operation has no means to change.
\<close>

theorem C5_set_in_place_or_insert_next_version:
  "(GetVarSetValue at (m_core_p var) = Some p
      \<longrightarrow> WVar_Set h var v at = at\<lparr>m_set := (m_set at)(m_core_p var \<mapsto> p\<lparr>m_value := v\<rparr>)\<rparr>)
   \<and> (GetVarSetValue at (m_core_p var) = None
      \<longrightarrow> WVar_Set h var v at =
            at\<lparr>m_set := (m_set at)(m_core_p var \<mapsto>
                   \<lparr>m_version = m_version (m_value_p (h (m_core_p var))) + 1, m_value = v\<rparr>),
               m_history := m_history at @
                 [ReadLockCall, LoadValue (m_core_p var), ReadUnlockCall]\<rparr>)
   \<and> (\<exists>q. GetVarSetValue (WVar_Set h var v at) (m_core_p var) = Some q \<and> m_value q = v)"
  by (auto simp add: WVar_Set_def tx_defs split: option.splits)

theorem C5_witness:
  "GetVarSetValue (WAtomic_new :: nat WAtomic) (m_core_p race_var) = None
   \<and> m_set (WVar_Set race_heap1 race_var 7 WAtomic_new) 0 = Some \<lparr>m_version = 2, m_value = 7\<rparr>
   \<and> m_history (WVar_Set race_heap1 race_var 7 (WAtomic_new :: nat WAtomic))
       = [ReadLockCall, LoadValue 0, ReadUnlockCall]
   \<and> GetVarSetValue race_txA (m_core_p race_var) = Some \<lparr>m_version = 1, m_value = 10\<rparr>
   \<and> m_set (WVar_Set race_heap2 race_var 7 race_txA) 0 = Some \<lparr>m_version = 1, m_value = 7\<rparr>
   \<and> m_history (WVar_Set race_heap2 race_var 7 race_txA) = m_history race_txA"
  using C5_set_in_place_or_insert_next_version
      [of "WAtomic_new :: nat WAtomic" race_var "\<lparr>m_version = 0, m_value = 0\<rparr>" race_heap1 7]
    C5_set_in_place_or_insert_next_version
      [of race_txA race_var "\<lparr>m_version = 1, m_value = 10\<rparr>" race_heap2 7]
  by (simp add: race_defs WVar_Set_def tx_defs)

section \<open>Validation of one cell\<close>

text \<open>
  Claim C6. When the transaction's read set holds a snapshot of the cell and the
  snapshot's version differs from the cell's current version, \<^verbatim>\<open>WVar::Validate\<close> throws
  \<^verbatim>\<open>WFailedValidationException\<close>. In particular it throws after a \<open>Get\<close> that read the cell,
  once the cell's version is no longer the one that \<open>Get\<close> saw.
\<close>

theorem C6_validate_raises_on_stale_snapshot:
  "(GetVarGotValue at (m_core_p var) = Some s
      \<and> m_version s \<noteq> m_version (m_value_p (h (m_core_p var)))
     \<longrightarrow> WVar_Validate h var at = Inl WFailedValidationException)
   \<and> (GetVarValue at (m_core_p var) = None
      \<and> m_version (m_value_p (h' (m_core_p var))) \<noteq> m_version (m_value_p (h (m_core_p var)))
     \<longrightarrow> WVar_Validate h' var (snd (WVar_Get h var at)) = Inl WFailedValidationException)"
proof (intro conjI impI)
  assume "GetVarGotValue at (m_core_p var) = Some s
            \<and> m_version s \<noteq> m_version (m_value_p (h (m_core_p var)))"
  then show "WVar_Validate h var at = Inl WFailedValidationException"
    by (simp add: Validate_stale)
next
  assume a: "GetVarValue at (m_core_p var) = None
      \<and> m_version (m_value_p (h' (m_core_p var))) \<noteq> m_version (m_value_p (h (m_core_p var)))"
  then have g: "GetVarGotValue (snd (WVar_Get h var at)) (m_core_p var)
               = Some (m_value_p (h (m_core_p var)))"
    by (simp add: WVar_Get_def tx_defs)
  from a have n: "m_version (m_value_p (h (m_core_p var)))
                    \<noteq> m_version (m_value_p (h' (m_core_p var)))"
    by auto
  from g n show "WVar_Validate h' var (snd (WVar_Get h var at)) = Inl WFailedValidationException"
    by (rule Validate_stale [where s = "m_value_p (h (m_core_p var))"])
qed

theorem C6_witness:
  "GetVarGotValue (snd (WVar_Get race_heap0 race_var WAtomic_new)) (m_core_p race_var)
     = Some \<lparr>m_version = 0, m_value = 0\<rparr>
   \<and> GetVarValue (WAtomic_new :: nat WAtomic) (m_core_p race_var) = None
   \<and> m_version \<lparr>m_version = 0, m_value = 0::nat\<rparr>
       \<noteq> m_version (m_value_p (race_heap1 (m_core_p race_var)))
   \<and> m_version (m_value_p (race_heap1 (m_core_p race_var)))
       \<noteq> m_version (m_value_p (race_heap0 (m_core_p race_var)))
   \<and> WVar_Validate race_heap1 race_var (snd (WVar_Get race_heap0 race_var WAtomic_new))
       = Inl WFailedValidationException"
  using C6_validate_raises_on_stale_snapshot
    [of "snd (WVar_Get race_heap0 race_var WAtomic_new)" race_var
        "\<lparr>m_version = 0, m_value = 0\<rparr>" race_heap1 race_heap1]
    C6_validate_raises_on_stale_snapshot
    [of "WAtomic_new :: nat WAtomic" race_var "\<lparr>m_version = 0, m_value = 0\<rparr>" race_heap0
        race_heap1]
  by (simp add: race_defs WVar_Get_def WVar_Set_def tx_defs)

section \<open>Inconsistent reads\<close>

text \<open>
  Claim C7. \<open>GetInconsistent\<close> returns the payload the cell has at that moment, loaded
  between \<open>ReadLock\<close> and \<open>ReadUnlock\<close> on the \<^verbatim>\<open>WInconsistent\<close> object, which owns the shared lock
  after \<open>ReadLock\<close>; it takes and returns no transaction object, so nothing is recorded in
  one. When the closure holds no lock of its own between two calls, a commit to the cell
  can come between them, and the second call returns the committed payload, not the
  first call's.
\<close>

theorem C7_get_inconsistent_reads_cell_each_time:
  "WVar_GetInconsistent h var ins =
     (m_value (m_value_p (h (m_core_p var))),
      ins\<lparr>m_lock := (m_lockCount ins \<noteq> 0),
          m_calls := m_calls ins @ [ReadLockCall, LoadValue (m_core_p var), ReadUnlockCall]\<rparr>)
   \<and> m_lock (WInconsistent_ReadLock ins)
   \<and> (m_lockCount ins = 0 \<and> GetVarSetValue at (m_core_p var) = Some p
        \<longrightarrow> \<not> m_lock (snd (WVar_GetInconsistent h var ins))
          \<and> fst (WVar_GetInconsistent (snd (publish h at (m_core_p var))) var
                  (snd (WVar_GetInconsistent h var ins))) = m_value p)"
  by (simp add: WVar_GetInconsistent_def WInconsistent_ReadLock_def WInconsistent_ReadUnlock_def
      publish_def commit_core_def WVarCore_Commit_def)

theorem C7_witness:
  "m_lockCount \<lparr>m_lock = False, m_lockCount = 0, m_calls = []\<rparr> = 0
   \<and> GetVarSetValue race_txB (m_core_p race_var) = Some \<lparr>m_version = 1, m_value = 20\<rparr>
   \<and> fst (WVar_GetInconsistent race_heap0 race_var
            \<lparr>m_lock = False, m_lockCount = 0, m_calls = []\<rparr>) = (0::nat)
   \<and> fst (WVar_GetInconsistent (snd (publish race_heap0 race_txB (m_core_p race_var))) race_var
           (snd (WVar_GetInconsistent race_heap0 race_var
                   \<lparr>m_lock = False, m_lockCount = 0, m_calls = []\<rparr>))) = 20"
  using C7_get_inconsistent_reads_cell_each_time
    [of race_heap0 race_var "\<lparr>m_lock = False, m_lockCount = 0, m_calls = []\<rparr>" race_txB
        "\<lparr>m_version = 1, m_value = 20\<rparr>"]
  by (simp add: race_defs WVar_Set_def tx_defs WVar_GetInconsistent_def
      WInconsistent_ReadLock_def WInconsistent_ReadUnlock_def)

section \<open>Profiling inside a child transaction\<close>

text \<open>
  Claim C8. While the thread is inside a child transaction (the counter is above 1),
  \<open>TransactionEnd\<close>, \<open>Commit\<close>, \<open>Conflict\<close> and \<open>NameTransaction\<close> leave the thread's data, its
  pages included, as it is. \<open>TransactionEnd\<close> changes anything only when the counter is 1,
  that is when the top-level transaction ends. Starting a child transaction from the top
  level only raises the counter to 2, and the end of the child restores the state.
\<close>

theorem C8_child_transaction_records_nothing:
  "(1 < m_inChildTransaction td \<longrightarrow>
       TransactionEnd L mainClearIndex threadId type endt vars td = Some (Inr td)
       \<and> Commit L mainClearIndex threadId endt vars td = Some (Inr td)
       \<and> Conflict L mainClearIndex threadId endt vars td = Some (Inr td)
       \<and> NameTransaction name td = td)
   \<and> (TransactionEnd L mainClearIndex threadId type endt vars td \<noteq> Some (Inr td)
       \<longrightarrow> m_inChildTransaction td = 1)
   \<and> (m_inChildTransaction td = 1 \<longrightarrow>
       StartTransaction file line td = td\<lparr>m_inChildTransaction := 2\<rparr>
       \<and> WOnTransactionEnd_destroy (StartTransaction file line td) = td)"
  by (auto simp add: TransactionEnd_def Commit_def Conflict_def NameTransaction_def
      NotInChildTransaction_def StartTransaction_def WOnTransactionEnd_destroy_def)

theorem C8_witness:
  "1 < m_inChildTransaction demo_child
   \<and> Commit demo_layout 0 1 5 [101, 102] demo_child = Some (Inr demo_child)
   \<and> Conflict demo_layout 0 1 5 [101, 102] demo_child = Some (Inr demo_child)
   \<and> NameTransaction (Some ''child'') demo_child = demo_child
   \<and> m_inChildTransaction demo_top = 1
   \<and> WOnTransactionEnd_destroy demo_child = demo_top
   \<and> Commit demo_layout 0 1 5 [101, 102, 103, 104, 105, 106, 107, 108, 109, 110] demo_top
       \<noteq> Some (Inr demo_top)"
  using C8_child_transaction_records_nothing
      [of demo_child demo_layout 0 1 commit 5 "[101, 102]" "Some ''child''" "Some ''g.cpp''" 9]
    C8_child_transaction_records_nothing
      [of demo_top demo_layout 0 1 commit 5 "[101, 102]" "Some ''child''" "Some ''g.cpp''" 9]
    demo_top_commit demo_child_count
  by (simp add: demo_child_def [symmetric])
     (simp add: demo_top_def StartTransaction_def WThreadData_new_def)

section \<open>Validation of a cell that was only set\<close>

text \<open>
  Claim C9. When the cell is not in the transaction's read set and the transaction runs
  \<open>Set\<close> on it (and any operations that are not a \<open>Get\<close> of it), \<^verbatim>\<open>WVar::Validate\<close> on the cell
  returns normally and leaves the transaction as it is, whatever version the cell has by
  then.
\<close>

theorem C9_validate_ignores_cell_only_set:
  assumes "GetVarGotValue at (m_core_p var) = None"
    and "\<forall>x \<in> set ops. \<not> gets_var var (snd x)"
  shows "WVar_Validate h var (run_ops at ops) = Inr (run_ops at ops)"
proof -
  from run_keeps_not_got [OF assms]
  have "GetVarGotValue (run_ops at ops) (m_core_p var) = None" .
  then show ?thesis by (simp add: WVar_Validate_def)
qed

theorem C9_witness:
  "GetVarGotValue (WAtomic_new :: nat WAtomic) (m_core_p race_var) = None
   \<and> GetVarSetValue (run_ops WAtomic_new [(race_heap0, OpSet race_var 10)]) (m_core_p race_var)
       = Some \<lparr>m_version = 1, m_value = 10\<rparr>
   \<and> m_version (m_value_p ((\<lambda>c. \<lparr>m_value_p = \<lparr>m_version = 1000, m_value = 3\<rparr>\<rparr>)
                               (m_core_p race_var))) = 1000
   \<and> WVar_Validate (\<lambda>c. \<lparr>m_value_p = \<lparr>m_version = 1000, m_value = 3\<rparr>\<rparr>) race_var
        (run_ops WAtomic_new [(race_heap0, OpSet race_var 10)])
       = Inr (run_ops WAtomic_new [(race_heap0, OpSet race_var 10)])"
  using C9_validate_ignores_cell_only_set
    [of "WAtomic_new :: nat WAtomic" race_var "[(race_heap0, OpSet race_var 10)]"
        "\<lambda>c. \<lparr>m_value_p = \<lparr>m_version = 1000, m_value = 3\<rparr>\<rparr>"]
  by (simp add: race_defs WVar_Set_def tx_defs)

section \<open>Reserving room on a page\<close>

text \<open>
  Claim C10. \<open>Reserve (n)\<close> returns a pointer and adds \<open>n\<close> to the used count when \<open>n\<close> is at
  most \<open>pageSize\<close> minus the used count, and leaves the stored data as it is; otherwise it
  returns null and leaves the page as it is. On a page whose used count is at most
  \<open>pageSize\<close> (every page is made with count 0) the addition does not wrap, the count stays
  at most \<open>pageSize\<close>, and the \<open>n\<close> bytes from the pointer on lie in the page's data area.
\<close>

theorem C10_reserve_advances_used_or_returns_null:
  "(n \<le> pageSize L - GetUsed page \<longrightarrow>
       Reserve L n page =
         (Some (unat (pagePadding L) + unat (GetUsed page)), page\<lparr>m_used := m_used page + n\<rparr>)
       \<and> GetUsed (snd (Reserve L n page)) = GetUsed page + n
       \<and> m_data (snd (Reserve L n page)) = m_data page)
   \<and> (\<not> n \<le> pageSize L - GetUsed page \<longrightarrow> Reserve L n page = (None, page))
   \<and> (GetUsed page \<le> pageSize L \<and> n \<le> pageSize L - GetUsed page \<longrightarrow>
       unat (GetUsed (snd (Reserve L n page))) = unat (GetUsed page) + unat n
       \<and> GetUsed (snd (Reserve L n page)) \<le> pageSize L
       \<and> (\<exists>pos. fst (Reserve L n page) = Some pos
             \<and> unat (pagePadding L) \<le> pos
             \<and> pos + unat n \<le> unat (pagePadding L) + unat (pageSize L)))"
proof (intro conjI impI)
  assume "n \<le> pageSize L - GetUsed page"
  then show "Reserve L n page =
      (Some (unat (pagePadding L) + unat (GetUsed page)), page\<lparr>m_used := m_used page + n\<rparr>)"
    "GetUsed (snd (Reserve L n page)) = GetUsed page + n"
    "m_data (snd (Reserve L n page)) = m_data page"
    by (simp_all add: Reserve_def GetLeft_def GetUsed_def)
next
  assume "\<not> n \<le> pageSize L - GetUsed page"
  then show "Reserve L n page = (None, page)"
    by (simp add: Reserve_def GetLeft_def GetUsed_def)
next
  assume a: "GetUsed page \<le> pageSize L \<and> n \<le> pageSize L - GetUsed page"
  then have u: "m_used page \<le> pageSize L" and f: "n \<le> pageSize L - m_used page"
    by (simp_all add: GetUsed_def)
  note w = word_reserve_fits [OF u f]
  from f w show "unat (GetUsed (snd (Reserve L n page))) = unat (GetUsed page) + unat n"
    by (simp add: Reserve_def GetLeft_def GetUsed_def)
  from f w show "GetUsed (snd (Reserve L n page)) \<le> pageSize L"
    by (simp add: Reserve_def GetLeft_def GetUsed_def)
  have "unat (m_used page) + unat n \<le> unat (pageSize L)"
    using w by (simp add: word_le_nat_alt)
  with f show "\<exists>pos. fst (Reserve L n page) = Some pos
             \<and> unat (pagePadding L) \<le> pos
             \<and> pos + unat n \<le> unat (pagePadding L) + unat (pageSize L)"
    by (simp add: Reserve_def GetLeft_def GetUsed_def)
qed

theorem C10_witness:
  "(40::size_t) \<le> pageSize demo_layout - GetUsed \<lparr>m_data = [], m_used = 80\<rparr>
   \<and> GetUsed \<lparr>m_data = [], m_used = 80\<rparr> \<le> pageSize demo_layout
   \<and> Reserve demo_layout 40 \<lparr>m_data = [], m_used = 80\<rparr>
       = (Some 88, \<lparr>m_data = [], m_used = 120\<rparr>)
   \<and> \<not> (40::size_t) \<le> pageSize demo_layout - GetUsed \<lparr>m_data = [], m_used = 120\<rparr>
   \<and> Reserve demo_layout 40 \<lparr>m_data = [], m_used = 120\<rparr>
       = (None, \<lparr>m_data = [], m_used = 120\<rparr>)"
  using C10_reserve_advances_used_or_returns_null
      [of 40 demo_layout "\<lparr>m_data = [], m_used = 80\<rparr>"]
    C10_reserve_advances_used_or_returns_null
      [of 40 demo_layout "\<lparr>m_data = [], m_used = 120\<rparr>"]
  by (simp add: demo_layout_def GetUsed_def)

section \<open>Further properties\<close>

text \<open>
  When the read set holds a snapshot of the cell whose version is the cell's current
  version, \<^verbatim>\<open>WVar::Validate\<close> returns normally, having compared the versions between
  \<open>ReadLock\<close> and \<open>ReadUnlock\<close>.
\<close>

theorem validate_passes_on_current_snapshot:
  assumes "GetVarGotValue at (m_core_p var) = Some s"
    and "m_version s = m_version (m_value_p (h (m_core_p var)))"
  shows "WVar_Validate h var at =
           Inr (at\<lparr>m_history := m_history at @
                  [ReadLockCall, LoadValue (m_core_p var), ReadUnlockCall]\<rparr>)"
  using assms by (simp add: WVar_Validate_def tx_defs WVarCore_Validate_def)

theorem validate_passes_on_current_snapshot_example:
  "GetVarGotValue (snd (WVar_Get race_heap0 race_var WAtomic_new)) (m_core_p race_var)
     = Some \<lparr>m_version = 0, m_value = 0\<rparr>
   \<and> m_version (m_value_p (race_heap0 (m_core_p race_var))) = 0
   \<and> WVar_Validate race_heap0 race_var (snd (WVar_Get race_heap0 race_var WAtomic_new))
       = Inr \<lparr>m_got = [0 \<mapsto> \<lparr>m_version = 0, m_value = 0\<rparr>], m_set = Map.empty,
              m_readLocks = 0,
              m_history = [ReadLockCall, LoadValue 0, ReadUnlockCall,
                           ReadLockCall, LoadValue 0, ReadUnlockCall]\<rparr>"
  using validate_passes_on_current_snapshot
    [of "snd (WVar_Get race_heap0 race_var WAtomic_new)" race_var
        "\<lparr>m_version = 0, m_value = 0\<rparr>" race_heap0]
  by (simp add: race_var_def race_heap0_def WVarCore_new_def WAtomic_new_def WVar_Get_def tx_defs)

text \<open>
  \<open>TransactionEnd\<close> returns, with the recorded data or with the null dereference, whenever
  \<open>pageSize\<close> is not zero: its loop over the variables ends.
\<close>

theorem TransactionEnd_returns:
  assumes "pageSize L \<noteq> 0"
  shows "\<exists>r. TransactionEnd L mainClearIndex threadId type endt vars td = Some r"
proof (cases "NotInChildTransaction td")
  case False
  then show ?thesis by (simp add: TransactionEnd_def)
next
  case True
  show ?thesis
  proof (cases "GetNextDest L mainClearIndex (sizeof_WTransaction L) td")
    case (Inl c)
    with True show ?thesis by (simp add: TransactionEnd_def)
  next
    case (Inr r)
    obtain dest_p td1 where r: "r = (dest_p, td1)" by (cases r)
    show ?thesis
    proof (cases dest_p)
      case None
      with True Inr r show ?thesis by (simp add: TransactionEnd_def)
    next
      case (Some pos)
      show ?thesis
      proof (cases "m_pages td1")
        case None
        with True Inr r Some show ?thesis by (simp add: TransactionEnd_def)
      next
        case (Some c)
        obtain prev cur rest where c: "c = (prev, cur, rest)" by (cases c) auto
        let ?cur1 = "cur\<lparr>m_data := m_data cur @
            [(pos, TransactionFrame
               \<lparr>m_type = type, m_name = m_curTransactionName td1, m_threadId = threadId,
                  m_threadName = m_threadName_td td1, m_start = m_curTransactionStart td1,
                  m_end = endt, m_file = m_curTransactionFile td1,
                  m_line = m_curTransactionLine td1,
                  m_numVars = ucast (word_of_nat (length vars) :: size_t)\<rparr>)]\<rparr>"
        from write_vars_terminates [OF assms] obtain c'
          where "write_vars L (sizeof_ptr L * word_of_nat (length vars)) vars (prev, ?cur1, rest)
                   = Some c'" by blast
        with True Inr r \<open>dest_p = Some pos\<close> Some c show ?thesis
          by (simp add: TransactionEnd_def Let_def)
      qed
    qed
  qed
qed

theorem TransactionEnd_returns_example:
  "pageSize demo_layout \<noteq> 0
   \<and> (\<exists>r. TransactionEnd demo_layout 0 1 commit 5 [101, 102] demo_top = Some r)"
  using TransactionEnd_returns [of demo_layout 0 1 commit 5 "[101, 102]" demo_top]
  by (simp add: demo_layout_def)

end
